theory Spec2Isabelle
  imports Complex_Main "HOL-Library.Char_ord" "HOL-Library.List_Lexorder"
    "HOL-Library.Product_Lexorder" "HOL-Library.AList"
begin

section \<open>Data model\<close>

text \<open>
  The dataclasses of the three scripts, and the values that cross their boundaries.
  \<^verbatim>\<open>SessionRecord\<close> belongs to session\_monitor.py, \<^verbatim>\<open>BranchDelta\<close> to
  git\_coordination.py, \<^verbatim>\<open>ActiveSession\<close> to heartbeat\_monitor.py.
\<close>

type_synonym path = string

record SessionRecord =
  session_id :: string
  started_at :: string
  cwd :: string
  role :: string
  parent_thread_id :: string
  depth :: string
  git_branch :: string
  log_path :: path

record BranchDelta =
  branch :: string
  ahead_of_base :: int
  behind_base :: int

record ActiveSession =
  session_id :: string
  role :: string
  branch :: string
  parent_thread_id :: string
  started_at :: string
  last_timestamp :: string
  last_summary :: string
  log_path :: string

text \<open>A completed child process, as \<^verbatim>\<open>subprocess.run\<close> returns it.\<close>

record proc =
  returncode :: int
  stdout :: string
  stderr :: string

text \<open>
  A file system snapshot maps a path to its file, if there is one.  A file that exists
  may still refuse to be opened (\<^verbatim>\<open>OSError\<close>).  The content of a file is its
  bytes, one \<^typ>\<open>char\<close> each, and a read position counts bytes.
\<close>

record file_entry =
  content :: string
  readable :: bool
  mtime :: real

type_synonym fs = "path \<Rightarrow> file_entry option"

text \<open>
  \<^verbatim>\<open>json.loads\<close> yields dictionaries, lists, strings, numbers, booleans and
  \<^verbatim>\<open>None\<close>.  A dictionary is an association list read with \<^const>\<open>map_of\<close>.  The
  parser itself is a library function: the model takes it as a parameter \<open>loads\<close>
  from the bytes of a line to the value parsed or to the exception raised, which is
  \<^verbatim>\<open>JSONDecodeError\<close> for text that is not JSON and may be another one
  (\<^verbatim>\<open>ValueError\<close> for an integer literal beyond the digit limit,
  \<^verbatim>\<open>RecursionError\<close> for nesting too deep).  Python's text form of a number, list
  or dictionary is a parameter \<open>repr\<close> as well.
\<close>

datatype json =
    JNull
  | JBool bool
  | JInt int
  | JFloat real
  | JStr string
  | JArr "json list"
  | JObj "(string \<times> json) list"

type_synonym dict = "(string \<times> json) list"

text \<open>
  The exceptions that occur.  In Python \<^verbatim>\<open>JSONDecodeError\<close> and
  \<^verbatim>\<open>UnicodeDecodeError\<close> are subclasses of \<^verbatim>\<open>ValueError\<close>; a handler for
  one of them, or for \<^verbatim>\<open>OSError\<close>, catches none of the others.
\<close>

datatype error =
    RuntimeError string
  | ValueError
  | JSONDecodeError
  | UnicodeDecodeError
  | RecursionError
  | AttributeError
  | KeyError
  | OSError

section \<open>Python text primitives used by the scripts\<close>

text \<open>
  The text that git prints and the strings inside parsed JSON are modelled as
  \<^typ>\<open>string\<close>, one \<^typ>\<open>char\<close> per code point below 256; the order on strings is
  the lexicographic order on code points, as Python compares \<^verbatim>\<open>str\<close> values.  Log
  files are read as bytes and decoded, further below.
\<close>

definition isspace :: "char \<Rightarrow> bool" where
  \<comment> \<open>\<^verbatim>\<open>str.isspace\<close> on one code point below 256\<close>
  "isspace c =
     (let n = (of_char c :: nat)
      in (9 \<le> n \<and> n \<le> 13) \<or> (28 \<le> n \<and> n \<le> 32) \<or> n = 133 \<or> n = 160)"

definition strip :: "string \<Rightarrow> string" where
  \<comment> \<open>\<^verbatim>\<open>str.strip()\<close>\<close>
  "strip s = rev (dropWhile isspace (rev (dropWhile isspace s)))"

fun split_acc :: "string \<Rightarrow> string \<Rightarrow> string list" where
  "split_acc cur [] = (if cur = [] then [] else [rev cur])"
| "split_acc cur (c # cs) =
     (if isspace c
      then (if cur = [] then split_acc [] cs else rev cur # split_acc [] cs)
      else split_acc (c # cur) cs)"

definition split_ws :: "string \<Rightarrow> string list" where
  \<comment> \<open>\<^verbatim>\<open>str.split()\<close> without arguments: the maximal runs of non-whitespace\<close>
  "split_ws s = split_acc [] s"

definition is_linebreak :: "char \<Rightarrow> bool" where
  \<comment> \<open>the line boundaries of \<^verbatim>\<open>str.splitlines\<close> below code point 256\<close>
  "is_linebreak c =
     (let n = (of_char c :: nat)
      in (10 \<le> n \<and> n \<le> 13) \<or> (28 \<le> n \<and> n \<le> 30) \<or> n = 133)"

fun splitlines_acc :: "bool \<Rightarrow> string \<Rightarrow> string \<Rightarrow> string list" where
  \<comment> \<open>the flag records that the previous character was a carriage return, so that a
      line feed right after it belongs to the same boundary\<close>
  "splitlines_acc cr cur [] = (if cur = [] then [] else [rev cur])"
| "splitlines_acc cr cur (c # cs) =
     (if cr \<and> c = CHR 0x0A then splitlines_acc False [] cs
      else if is_linebreak c then rev cur # splitlines_acc (c = CHR 0x0D) [] cs
      else splitlines_acc False (c # cur) cs)"

definition splitlines :: "string \<Rightarrow> string list" where
  \<comment> \<open>\<^verbatim>\<open>str.splitlines()\<close>: the lines without their terminators\<close>
  "splitlines s = splitlines_acc False [] s"

definition startswith :: "string \<Rightarrow> string \<Rightarrow> bool" where
  "startswith s p = (take (length p) s = p)"

definition removeprefix :: "string \<Rightarrow> string \<Rightarrow> string" where
  "removeprefix s p = (if startswith s p then drop (length p) s else s)"

definition lower_char :: "char \<Rightarrow> char" where
  \<comment> \<open>the ASCII letters; the scripts only compare a lowered string with \<^verbatim>\<open>"auto"\<close>\<close>
  "lower_char c =
     (case map_of (zip ''ABCDEFGHIJKLMNOPQRSTUVWXYZ'' ''abcdefghijklmnopqrstuvwxyz'') c of
        Some d \<Rightarrow> d
      | None \<Rightarrow> c)"

definition lower :: "string \<Rightarrow> string" where
  "lower s = map lower_char s"

fun join :: "string \<Rightarrow> string list \<Rightarrow> string" where
  \<comment> \<open>\<^verbatim>\<open>sep.join(xs)\<close>\<close>
  "join sep [] = []"
| "join sep [x] = x"
| "join sep (x # y # ys) = x @ sep @ join sep (y # ys)"

definition py_slice_to :: "'a list \<Rightarrow> int \<Rightarrow> 'a list" where
  \<comment> \<open>\<^verbatim>\<open>xs[:k]\<close>: a negative bound counts from the end\<close>
  "py_slice_to xs k =
     (if 0 \<le> k then take (nat k) xs else take (nat (int (length xs) + k)) xs)"

definition sorted_desc :: "('a \<Rightarrow> 'k::linorder) \<Rightarrow> 'a list \<Rightarrow> 'a list" where
  \<comment> \<open>\<^verbatim>\<open>sorted(xs, key=f, reverse=True)\<close>: a stable sort in descending key order
      (elements with equal keys keep their original order)\<close>
  "sorted_desc f xs = rev (sort_key f (rev xs))"

definition is_digit :: "char \<Rightarrow> bool" where
  "is_digit c = (let n = (of_char c :: nat) in 48 \<le> n \<and> n \<le> 57)"

definition digit_val :: "char \<Rightarrow> int" where
  "digit_val c = int (of_char c) - 48"

fun valid_digits :: "bool \<Rightarrow> string \<Rightarrow> bool" where
  \<comment> \<open>digits, with single underscores allowed between two digits; the flag says that
      the previous character was a digit\<close>
  "valid_digits prev [] = prev"
| "valid_digits prev (c # cs) =
     (if is_digit c then valid_digits True cs
      else if c = CHR ''_'' \<and> prev then cs \<noteq> [] \<and> is_digit (hd cs) \<and> valid_digits False cs
      else False)"

definition digits_val :: "string \<Rightarrow> int" where
  "digits_val s = foldl (\<lambda>acc c. 10 * acc + digit_val c) 0 (filter is_digit s)"

definition py_int :: "string \<Rightarrow> error + int" where
  \<comment> \<open>\<^verbatim>\<open>int(s)\<close> for a string: surrounding whitespace, one optional sign, decimal
      digits (below code point 256 these are the ASCII digits)\<close>
  "py_int s =
     (let t = strip s;
          neg = (t \<noteq> [] \<and> hd t = CHR ''-'');
          d = (if t \<noteq> [] \<and> (hd t = CHR ''-'' \<or> hd t = CHR ''+'') then tl t else t)
      in if valid_digits False d
         then Inr (if neg then - digits_val d else digits_val d)
         else Inl ValueError)"

section \<open>git\_coordination.py\<close>

text \<open>
  The version-control tool is an external process.  For one repository state it is a
  function from the argument list that follows \<^verbatim>\<open>git -C repo_root\<close> to the completed
  process.
\<close>

type_synonym git = "string list \<Rightarrow> proc"

definition run_git :: "git \<Rightarrow> string list \<Rightarrow> bool \<Rightarrow> error + string" where
  "run_git g args check =
     (let p = g args
      in if check \<and> returncode p \<noteq> 0
         then Inl (RuntimeError (''git '' @ join '' '' args @ '' failed: '' @ strip (stderr p)))
         else Inr (strip (stdout p)))"

definition ref_exists :: "git \<Rightarrow> string \<Rightarrow> bool" where
  "ref_exists g ref = (returncode (g [''rev-parse'', ''--verify'', ''--quiet'', ref]) = 0)"

definition list_local_branches :: "git \<Rightarrow> error + string list" where
  "list_local_branches g =
     (case run_git g [''for-each-ref'', ''--format=%(refname:short)'', ''refs/heads''] True of
        Inl e \<Rightarrow> Inl e
      | Inr out \<Rightarrow> Inr (sort (map strip (filter (\<lambda>line. strip line \<noteq> []) (splitlines out)))))"

definition normalize_base_branch_name :: "string \<Rightarrow> string" where
  "normalize_base_branch_name base_ref =
     (if startswith base_ref ''origin/'' then removeprefix base_ref ''origin/'' else base_ref)"

definition DEFAULT_MAIN_CANDIDATES :: "string list" where
  "DEFAULT_MAIN_CANDIDATES = [''main'', ''master'', ''trunk'']"

definition detect_base_ref :: "git \<Rightarrow> error + string" where
  "detect_base_ref g =
     (case list_local_branches g of
        Inl e \<Rightarrow> Inl e
      | Inr branches \<Rightarrow>
          (case find (\<lambda>candidate. candidate \<in> set branches) DEFAULT_MAIN_CANDIDATES of
             Some candidate \<Rightarrow> Inr candidate
           | None \<Rightarrow>
               (case find (\<lambda>remote_ref. ref_exists g remote_ref)
                       (map (\<lambda>candidate. ''origin/'' @ candidate) DEFAULT_MAIN_CANDIDATES) of
                  Some remote_ref \<Rightarrow> Inr remote_ref
                | None \<Rightarrow>
                    (let remote_head =
                           strip (stdout (g [''symbolic-ref'', ''--quiet'', ''refs/remotes/origin/HEAD'']));
                         current =
                           strip (stdout (g [''rev-parse'', ''--abbrev-ref'', ''HEAD'']))
                     in if startswith remote_head ''refs/remotes/''
                           \<and> ref_exists g (removeprefix remote_head ''refs/remotes/'')
                        then Inr (removeprefix remote_head ''refs/remotes/'')
                        else if current \<noteq> [] \<and> current \<noteq> ''HEAD'' then Inr current
                        else Inl (RuntimeError
                          ''Unable to detect a base branch/ref. Pass --main-branch explicitly.'')))))"

definition choose_base_ref :: "git \<Rightarrow> string \<Rightarrow> error + string" where
  "choose_base_ref g requested0 =
     (let requested = strip requested0
      in if requested \<noteq> [] \<and> lower requested \<noteq> ''auto''
         then (if ref_exists g requested then Inr requested
               else let remote_requested = ''origin/'' @ requested
                    in if ref_exists g remote_requested then Inr remote_requested
                       else Inl (RuntimeError
                         (''Base branch/ref '' @ [CHR 0x27] @ requested @ [CHR 0x27]
                            @ '' does not exist locally or as '' @ [CHR 0x27]
                            @ remote_requested @ [CHR 0x27] @ ''.'')))
         else detect_base_ref g)"

fun deltas_loop ::
  "git \<Rightarrow> string \<Rightarrow> string \<Rightarrow> string list \<Rightarrow> BranchDelta list \<Rightarrow> error + BranchDelta list"
where
  \<comment> \<open>the \<^verbatim>\<open>for branch in branches\<close> loop of \<^verbatim>\<open>branch_deltas\<close>, with the list
      \<^verbatim>\<open>deltas\<close> built so far\<close>
  "deltas_loop g base_ref base_branch_name [] deltas = Inr deltas"
| "deltas_loop g base_ref base_branch_name (b # bs) deltas =
     (if b = base_branch_name then deltas_loop g base_ref base_branch_name bs deltas
      else
        (case run_git g [''rev-list'', ''--left-right'', ''--count'', b @ ''...'' @ base_ref] True of
           Inl e \<Rightarrow> Inl e
         | Inr out \<Rightarrow>
             (let parts = split_ws out
              in if length parts \<noteq> 2 then deltas_loop g base_ref base_branch_name bs deltas
                 else
                   (case py_int (parts ! 0) of
                      Inl e \<Rightarrow> Inl e
                    | Inr ahead \<Rightarrow>
                        (case py_int (parts ! 1) of
                           Inl e \<Rightarrow> Inl e
                         | Inr behind \<Rightarrow>
                             deltas_loop g base_ref base_branch_name bs
                               (deltas @ [\<lparr>BranchDelta.branch = b, ahead_of_base = ahead,
                                           behind_base = behind\<rparr>]))))))"

definition branch_deltas :: "git \<Rightarrow> string \<Rightarrow> error + BranchDelta list" where
  "branch_deltas g base_ref =
     (case list_local_branches g of
        Inl e \<Rightarrow> Inl e
      | Inr branches \<Rightarrow>
          (case deltas_loop g base_ref (normalize_base_branch_name base_ref) branches [] of
             Inl e \<Rightarrow> Inl e
           | Inr deltas \<Rightarrow>
               Inr (sorted_desc (\<lambda>d. (behind_base d, ahead_of_base d, BranchDelta.branch d)) deltas)))"

definition categorize_branch :: "BranchDelta \<Rightarrow> string" where
  "categorize_branch delta =
     (if ahead_of_base delta = 0 \<and> behind_base delta > 0 then ''stale: rebase before new work''
      else if ahead_of_base delta > 0 \<and> behind_base delta > 0 then ''diverged: rebase before merge''
      else if ahead_of_base delta > 0 \<and> behind_base delta = 0 then ''ahead only: candidate to merge''
      else ''in sync with base'')"

text \<open>The dictionary that \<^verbatim>\<open>normalize_topology\<close> builds, with its five keys.\<close>

record topology =
  base_ref :: string
  root_dirty :: bool
  dirty_worktrees :: "string list"
  prunable_worktrees :: "string list"
  diverged :: "string list"

text \<open>The command-line options of heartbeat\_monitor.py that its loop reads.\<close>

record args =
  once :: bool
  poll_interval :: real
  heartbeat_interval :: real

text \<open>The three variables that \<^verbatim>\<open>main\<close> carries from one cycle to the next.\<close>

record loop_state =
  prev_session_ids :: "string list"
  prev_topology :: "topology option"
  next_heartbeat :: real

section \<open>session\_monitor.py\<close>

subsection \<open>Parsed JSON values\<close>

definition get :: "dict \<Rightarrow> string \<Rightarrow> json \<Rightarrow> json" where
  \<comment> \<open>\<^verbatim>\<open>d.get(key, default)\<close>\<close>
  "get d k dflt = (case map_of d k of Some v \<Rightarrow> v | None \<Rightarrow> dflt)"

fun truthy :: "json \<Rightarrow> bool" where
  "truthy JNull = False"
| "truthy (JBool b) = b"
| "truthy (JInt i) = (i \<noteq> 0)"
| "truthy (JFloat x) = (x \<noteq> 0)"
| "truthy (JStr s) = (s \<noteq> [])"
| "truthy (JArr xs) = (xs \<noteq> [])"
| "truthy (JObj d) = (d \<noteq> [])"

fun str_of :: "(json \<Rightarrow> string) \<Rightarrow> json \<Rightarrow> string" where
  \<comment> \<open>\<^verbatim>\<open>str(v)\<close>, also what an f-string inserts\<close>
  "str_of repr (JStr s) = s"
| "str_of repr JNull = ''None''"
| "str_of repr (JBool b) = (if b then ''True'' else ''False'')"
| "str_of repr v = repr v"

definition py_or :: "json \<Rightarrow> json \<Rightarrow> json" where
  \<comment> \<open>\<^verbatim>\<open>a or b\<close>\<close>
  "py_or a b = (if truthy a then a else b)"

definition as_dict :: "json \<Rightarrow> dict" where
  \<comment> \<open>\<^verbatim>\<open>if not isinstance(x, dict): x = {}\<close>\<close>
  "as_dict v = (case v of JObj d \<Rightarrow> d | _ \<Rightarrow> [])"

subsection \<open>Reading a log file\<close>

text \<open>
  A log is opened in text mode with the UTF-8 codec and iterated line by line.  The
  text layer reads the bytes from the current position in chunks of 8192 (a regular
  file gives full chunks until its end) and decodes each chunk before it hands over
  any line of it; bytes that are not UTF-8 raise \<^verbatim>\<open>UnicodeDecodeError\<close> when
  their chunk is decoded, and a sequence cut off by the end of the file raises it at
  the end.  Line boundaries are single bytes, so lines are cut on the bytes.  Newlines
  are universal: a line ends at a line feed, at a carriage return, or at the pair, and
  is handed over with one line feed; a carriage return is held back until the next
  character is decoded.
\<close>

definition CHUNK_SIZE :: nat where
  "CHUNK_SIZE = 8192"

fun chunks_acc :: "nat \<Rightarrow> nat \<Rightarrow> 'a list \<Rightarrow> 'a list \<Rightarrow> 'a list list" where
  \<comment> \<open>cutting into chunks of \<open>n\<close>: \<open>left\<close> is the room left in the chunk being filled\<close>
  "chunks_acc n left cur [] = (if cur = [] then [] else [rev cur])"
| "chunks_acc n left cur (x # xs) =
     (if left \<le> 1 then rev (x # cur) # chunks_acc n n [] xs
      else chunks_acc n (left - 1) (x # cur) xs)"

definition chunks_of :: "nat \<Rightarrow> 'a list \<Rightarrow> 'a list list" where
  "chunks_of n xs = chunks_acc n n [] xs"

text \<open>
  The state of the UTF-8 decoder between two bytes: how many continuation bytes the
  character begun still needs, the range allowed for the next one, and how many bytes
  of that character have been read.
\<close>

type_synonym utf8_state = "nat \<times> nat \<times> nat \<times> nat"

definition utf8_start :: utf8_state where
  "utf8_start = (0, 0x80, 0xBF, 0)"

definition utf8_lead :: "nat \<Rightarrow> utf8_state option" where
  \<comment> \<open>the first byte of a character (well-formed UTF-8: no overlong forms, no
      surrogates, nothing above U+10FFFF)\<close>
  "utf8_lead b =
     (if b < 0x80 then Some (0, 0x80, 0xBF, 0)
      else if 0xC2 \<le> b \<and> b \<le> 0xDF then Some (1, 0x80, 0xBF, 1)
      else if b = 0xE0 then Some (2, 0xA0, 0xBF, 1)
      else if b = 0xED then Some (2, 0x80, 0x9F, 1)
      else if 0xE1 \<le> b \<and> b \<le> 0xEF then Some (2, 0x80, 0xBF, 1)
      else if b = 0xF0 then Some (3, 0x90, 0xBF, 1)
      else if 0xF1 \<le> b \<and> b \<le> 0xF3 then Some (3, 0x80, 0xBF, 1)
      else if b = 0xF4 then Some (3, 0x80, 0x8F, 1)
      else None)"

fun utf8_feed :: "utf8_state \<Rightarrow> string \<Rightarrow> utf8_state option" where
  \<comment> \<open>decoding a chunk: the state after it, or \<^const>\<open>None\<close> for bytes that cannot
      be decoded\<close>
  "utf8_feed st [] = Some st"
| "utf8_feed (due, lo, hi, seen) (c # cs) =
     (let b = (of_char c :: nat)
      in if due = 0
         then (case utf8_lead b of None \<Rightarrow> None | Some st \<Rightarrow> utf8_feed st cs)
         else if lo \<le> b \<and> b \<le> hi
         then utf8_feed (if due = 1 then utf8_start else (due - 1, 0x80, 0xBF, seen + 1)) cs
         else None)"

fun split_text :: "string \<Rightarrow> bool \<Rightarrow> string \<Rightarrow> string list \<times> string \<times> bool" where
  \<comment> \<open>the lines completed by newly decoded text; \<open>cur\<close> is the line begun, in
      reverse, and \<open>cr\<close> says that a carriage return is held back\<close>
  "split_text cur cr [] = ([], cur, cr)"
| "split_text cur cr (c # cs) =
     (if cr then
        (let (ls, r) =
               (if c = CHR 0x0A then split_text [] False cs
                else if c = CHR 0x0D then split_text [] True cs
                else split_text [c] False cs)
         in (rev (CHR 0x0A # cur) # ls, r))
      else if c = CHR 0x0A then
        (let (ls, r) = split_text [] False cs in (rev (CHR 0x0A # cur) # ls, r))
      else if c = CHR 0x0D then split_text cur True cs
      else split_text (c # cur) False cs)"

fun read_chunks ::
  "utf8_state \<Rightarrow> string \<Rightarrow> string \<Rightarrow> bool \<Rightarrow> string list \<Rightarrow> string list \<times> error option" where
  \<comment> \<open>the lines handed over, in order, and the exception that ends the iteration, if
      any; \<open>tail\<close> holds the bytes of a character not yet complete\<close>
  "read_chunks st tail cur cr [] =
     (if fst st \<noteq> 0 then ([], Some UnicodeDecodeError)
      else if cr then ([rev (CHR 0x0A # cur)], None)
      else if cur \<noteq> [] then ([rev cur], None)
      else ([], None))"
| "read_chunks st tail cur cr (chunk # rest) =
     (case utf8_feed st chunk of
        None \<Rightarrow> ([], Some UnicodeDecodeError)
      | Some st1 \<Rightarrow>
          (let data = tail @ chunk;
               n = length data - snd (snd (snd st1));
               (ls, cur1, cr1) = split_text cur cr (take n data);
               (more, failure) = read_chunks st1 (drop n data) cur1 cr1 rest
           in (ls @ more, failure)))"

definition read_text :: "string \<Rightarrow> string list \<times> error option" where
  \<comment> \<open>\<^verbatim>\<open>for line in handle\<close> on the bytes from the handle's position to the end of
      the file\<close>
  "read_text bytes = read_chunks utf8_start [] [] False (chunks_of CHUNK_SIZE bytes)"

text \<open>
  A line handed over is decoded text, kept here as its UTF-8 bytes.  \<^verbatim>\<open>str.strip()\<close>
  removes the whitespace characters of Unicode from both ends, some of which take
  two or three bytes.
\<close>

definition utf8_spaces :: "string list" where
  \<comment> \<open>the characters for which \<^verbatim>\<open>str.isspace\<close> holds, in UTF-8\<close>
  "utf8_spaces =
     [[CHR 0x09], [CHR 0x0A], [CHR 0x0B], [CHR 0x0C], [CHR 0x0D],
      [CHR 0x1C], [CHR 0x1D], [CHR 0x1E], [CHR 0x1F], [CHR 0x20],
      [CHR 0xC2, CHR 0x85], [CHR 0xC2, CHR 0xA0], [CHR 0xE1, CHR 0x9A, CHR 0x80],
      [CHR 0xE2, CHR 0x80, CHR 0x80], [CHR 0xE2, CHR 0x80, CHR 0x81],
      [CHR 0xE2, CHR 0x80, CHR 0x82], [CHR 0xE2, CHR 0x80, CHR 0x83],
      [CHR 0xE2, CHR 0x80, CHR 0x84], [CHR 0xE2, CHR 0x80, CHR 0x85],
      [CHR 0xE2, CHR 0x80, CHR 0x86], [CHR 0xE2, CHR 0x80, CHR 0x87],
      [CHR 0xE2, CHR 0x80, CHR 0x88], [CHR 0xE2, CHR 0x80, CHR 0x89],
      [CHR 0xE2, CHR 0x80, CHR 0x8A], [CHR 0xE2, CHR 0x80, CHR 0xA8],
      [CHR 0xE2, CHR 0x80, CHR 0xA9], [CHR 0xE2, CHR 0x80, CHR 0xAF],
      [CHR 0xE2, CHR 0x81, CHR 0x9F], [CHR 0xE3, CHR 0x80, CHR 0x80]]"

definition space_first :: "string \<Rightarrow> nat" where
  \<comment> \<open>the number of bytes of the whitespace character the bytes begin with, 0 when
      they begin with none\<close>
  "space_first s =
     (if take 1 s \<in> set utf8_spaces then 1
      else if take 2 s \<in> set utf8_spaces then 2
      else if take 3 s \<in> set utf8_spaces then 3
      else 0)"

definition space_last :: "string \<Rightarrow> nat" where
  \<comment> \<open>the same for the end of the bytes, which are given in reverse\<close>
  "space_last r =
     (if rev (take 1 r) \<in> set utf8_spaces then 1
      else if rev (take 2 r) \<in> set utf8_spaces then 2
      else if rev (take 3 r) \<in> set utf8_spaces then 3
      else 0)"

fun drop_spaces :: "(string \<Rightarrow> nat) \<Rightarrow> nat \<Rightarrow> string \<Rightarrow> string" where
  \<comment> \<open>dropping whitespace characters from the front; \<open>skip\<close> counts the bytes still
      to drop of the character being dropped\<close>
  "drop_spaces width skip [] = []"
| "drop_spaces width skip (c # cs) =
     (if skip > 0 then drop_spaces width (skip - 1) cs
      else if width (c # cs) = 0 then c # cs
      else drop_spaces width (width (c # cs) - 1) cs)"

definition strip_utf8 :: "string \<Rightarrow> string" where
  "strip_utf8 s = rev (drop_spaces space_last 0 (rev (drop_spaces space_first 0 s)))"

subsection \<open>Session discovery\<close>

fun replace_Z :: "string \<Rightarrow> string" where
  \<comment> \<open>\<^verbatim>\<open>ts.replace("Z", "+00:00")\<close>\<close>
  "replace_Z [] = []"
| "replace_Z (c # cs) = (if c = CHR ''Z'' then ''+00:00'' @ replace_Z cs else c # replace_Z cs)"

definition parse_iso :: "(string \<Rightarrow> int option) \<Rightarrow> string \<Rightarrow> error + int" where
  \<comment> \<open>\<open>fromisoformat\<close> stands for \<^verbatim>\<open>datetime.fromisoformat\<close> followed by the
      conversion to UTC: the instant in microseconds, or \<^const>\<open>None\<close> for
      \<^verbatim>\<open>ValueError\<close>\<close>
  "parse_iso fromisoformat ts =
     (case fromisoformat (replace_Z ts) of None \<Rightarrow> Inl ValueError | Some t \<Rightarrow> Inr t)"

fun session_meta_lines :: "(string \<Rightarrow> error + json) \<Rightarrow> string list \<Rightarrow> error + dict option" where
  \<comment> \<open>the \<^verbatim>\<open>for line in handle\<close> loop of \<^verbatim>\<open>read_session_meta\<close> on the
      lines handed over: the payload at which it returns, \<^const>\<open>None\<close> when the
      lines run out, or the exception that leaves it\<close>
  "session_meta_lines loads [] = Inr None"
| "session_meta_lines loads (line0 # rest) =
     (let line = strip_utf8 line0
      in if line = [] then session_meta_lines loads rest
         else
           (case loads line of
              Inl e \<Rightarrow> (if e = JSONDecodeError then session_meta_lines loads rest else Inl e)
            | Inr obj \<Rightarrow>
                (case obj of
                   JObj d \<Rightarrow>
                     (if get d ''type'' JNull = JStr ''session_meta''
                      then (case get d ''payload'' (JObj []) of
                              JObj payload \<Rightarrow> Inr (Some payload)
                            | _ \<Rightarrow> session_meta_lines loads rest)
                      else session_meta_lines loads rest)
                 | _ \<Rightarrow> Inl AttributeError)))"

definition read_session_meta ::
  "(string \<Rightarrow> error + json) \<Rightarrow> fs \<Rightarrow> path \<Rightarrow> error + dict option" where
  \<comment> \<open>an \<^verbatim>\<open>OSError\<close> on opening gives \<^verbatim>\<open>None\<close>; when the lines handed over
      run out, the exception that ended the iteration, if any, is raised\<close>
  "read_session_meta loads files p =
     (case files p of
        None \<Rightarrow> Inr None
      | Some f \<Rightarrow>
          (if \<not> readable f then Inr None
           else
             (let (lines, failure) = read_text (content f)
              in case session_meta_lines loads lines of
                   Inr None \<Rightarrow> (case failure of Some e \<Rightarrow> Inl e | None \<Rightarrow> Inr None)
                 | r \<Rightarrow> r)))"

definition to_session_record ::
  "(json \<Rightarrow> string) \<Rightarrow> path \<Rightarrow> dict \<Rightarrow> SessionRecord option" where
  "to_session_record repr p meta =
     (let cwd = str_of repr (get meta ''cwd'' (JStr ''''));
          session_id = strip (str_of repr (get meta ''id'' (JStr '''')));
          started_at = strip (str_of repr (get meta ''timestamp'' (JStr '''')))
      in if session_id = [] \<or> started_at = [] \<or> cwd = [] then None
         else
           (let source = as_dict (get meta ''source'' (JObj []));
                subagent = as_dict (get source ''subagent'' (JObj []));
                thread_spawn = as_dict (get subagent ''thread_spawn'' (JObj []));
                git_obj = as_dict (get meta ''git'' (JObj []))
            in Some \<lparr>SessionRecord.session_id = session_id,
                     started_at = started_at,
                     cwd = cwd,
                     role = (if thread_spawn \<noteq> [] then ''subagent'' else ''primary''),
                     parent_thread_id =
                       str_of repr (py_or (get thread_spawn ''parent_thread_id'' (JStr '''')) (JStr '''')),
                     depth = str_of repr (py_or (get thread_spawn ''depth'' (JStr '''')) (JStr '''')),
                     git_branch = str_of repr (py_or (get git_obj ''branch'' (JStr '''')) (JStr '''')),
                     log_path = p\<rparr>))"

fun split_on :: "char \<Rightarrow> string \<Rightarrow> string \<Rightarrow> string list" where
  \<comment> \<open>\<^verbatim>\<open>s.split(sep)\<close> for a one-character separator, with the field read so far\<close>
  "split_on sep cur [] = [rev cur]"
| "split_on sep cur (c # cs) =
     (if c = sep then rev cur # split_on sep [] cs else split_on sep (c # cur) cs)"

fun common_prefix :: "'a list \<Rightarrow> 'a list \<Rightarrow> 'a list" where
  "common_prefix (x # xs) (y # ys) = (if x = y then x # common_prefix xs ys else [])"
| "common_prefix xs ys = []"

definition commonpath :: "string \<Rightarrow> string \<Rightarrow> error + string" where
  \<comment> \<open>\<^verbatim>\<open>os.path.commonpath([p, q])\<close> on POSIX: the longest common sequence of path
      components; mixing an absolute and a relative path is a \<^verbatim>\<open>ValueError\<close>\<close>
  "commonpath p q =
     (let isabs = (take 1 p = ''/'');
          comps = (\<lambda>s. filter (\<lambda>c. c \<noteq> [] \<and> c \<noteq> ''.'') (split_on (CHR ''/'') [] s))
      in if isabs \<noteq> (take 1 q = ''/'') then Inl ValueError
         else Inr ((if isabs then ''/'' else []) @ join ''/'' (common_prefix (comps p) (comps q))))"

definition is_within_root :: "(string \<Rightarrow> string) \<Rightarrow> string \<Rightarrow> string \<Rightarrow> bool" where
  \<comment> \<open>\<open>realpath\<close> stands for \<^verbatim>\<open>os.path.realpath\<close>\<close>
  "is_within_root realpath project_root p =
     (let resolved_root = realpath project_root; resolved_path = realpath p
      in case commonpath resolved_root resolved_path of
           Inl e \<Rightarrow> False
         | Inr c \<Rightarrow> c = resolved_root)"

fun discover_loop ::
  "(string \<Rightarrow> error + json) \<Rightarrow> (json \<Rightarrow> string) \<Rightarrow> (string \<Rightarrow> string) \<Rightarrow> fs \<Rightarrow> string
     \<Rightarrow> path list \<Rightarrow> SessionRecord list \<Rightarrow> error + SessionRecord list"
where
  \<comment> \<open>the \<^verbatim>\<open>for path in iter_log_files(codex_home)\<close> loop, with \<^verbatim>\<open>results\<close> so far\<close>
  "discover_loop loads repr realpath files project_root [] results = Inr results"
| "discover_loop loads repr realpath files project_root (p # ps) results =
     (case read_session_meta loads files p of
        Inl e \<Rightarrow> Inl e
      | Inr None \<Rightarrow> discover_loop loads repr realpath files project_root ps results
      | Inr (Some meta) \<Rightarrow>
          (if meta = [] then discover_loop loads repr realpath files project_root ps results
           else
             (case to_session_record repr p meta of
                None \<Rightarrow> discover_loop loads repr realpath files project_root ps results
              | Some record \<Rightarrow>
                  (if \<not> is_within_root realpath project_root (cwd record)
                   then discover_loop loads repr realpath files project_root ps results
                   else discover_loop loads repr realpath files project_root ps
                          (results @ [record])))))"

definition discover_sessions ::
  "(string \<Rightarrow> error + json) \<Rightarrow> (json \<Rightarrow> string) \<Rightarrow> (string \<Rightarrow> string) \<Rightarrow> (string \<Rightarrow> int option)
     \<Rightarrow> fs \<Rightarrow> path list \<Rightarrow> string \<Rightarrow> error + SessionRecord list"
where
  \<comment> \<open>\<open>log_files\<close> is what \<^verbatim>\<open>iter_log_files(codex_home)\<close> enumerates.  The sort calls
      its key function on every element before it compares any, so one failing key
      fails the sort.\<close>
  "discover_sessions loads repr realpath fromisoformat files log_files project_root =
     (case discover_loop loads repr realpath files project_root log_files [] of
        Inl e \<Rightarrow> Inl e
      | Inr results \<Rightarrow>
          (if \<exists>r \<in> set results. parse_iso fromisoformat (SessionRecord.started_at r) = Inl ValueError
           then Inl ValueError
           else Inr (sorted_desc
                  (\<lambda>r. case parse_iso fromisoformat (SessionRecord.started_at r) of
                          Inr t \<Rightarrow> t
                        | Inl e \<Rightarrow> 0)
                  results)))"

definition is_active :: "fs \<Rightarrow> real \<Rightarrow> path \<Rightarrow> int \<Rightarrow> bool" where
  \<comment> \<open>\<open>now\<close> is the wall clock in seconds, as \<^const>\<open>mtime\<close> is; a failing
      \<^verbatim>\<open>stat\<close> gives \<^verbatim>\<open>False\<close>\<close>
  "is_active files now p minutes =
     (case files p of
        None \<Rightarrow> False
      | Some f \<Rightarrow> mtime f \<ge> now - 60 * real_of_int minutes)"

subsection \<open>Summaries\<close>

definition normalize_whitespace :: "string \<Rightarrow> string" where
  "normalize_whitespace text = join '' '' (split_ws text)"

definition truncate :: "string \<Rightarrow> int \<Rightarrow> string" where
  "truncate text limit =
     (if int (length text) \<le> limit then text else py_slice_to text (limit - 3) @ ''...'')"

fun first_text :: "json list \<Rightarrow> string" where
  \<comment> \<open>the \<^verbatim>\<open>for item in content\<close> loop of \<^verbatim>\<open>extract_message_text\<close>\<close>
  "first_text [] = []"
| "first_text (item # items) =
     (case item of
        JObj i \<Rightarrow>
          (case get i ''text'' JNull of
             JStr text \<Rightarrow>
               (if strip text \<noteq> [] then normalize_whitespace text else first_text items)
           | _ \<Rightarrow> first_text items)
      | _ \<Rightarrow> first_text items)"

definition extract_message_text :: "dict \<Rightarrow> string" where
  "extract_message_text payload =
     (case get payload ''content'' (JArr []) of
        JArr items \<Rightarrow> first_text items
      | _ \<Rightarrow> [])"

definition summarize_event :: "(json \<Rightarrow> string) \<Rightarrow> json \<Rightarrow> error + string" where
  \<comment> \<open>\<^verbatim>\<open>obj.get\<close> exists on dictionaries only: any other value is an
      \<^verbatim>\<open>AttributeError\<close>\<close>
  "summarize_event repr obj =
     (case obj of
        JObj d \<Rightarrow>
          (let event_type = get d ''type'' JNull;
               payload = get d ''payload'' (JObj [])
           in if event_type = JStr ''session_meta'' then
                (case payload of
                   JObj p \<Rightarrow> Inr (''session start cwd='' @ str_of repr (get p ''cwd'' (JStr '''')))
                 | _ \<Rightarrow> Inr ''session start'')
              else if event_type = JStr ''turn_context'' then
                (case payload of
                   JObj p \<Rightarrow> Inr (''turn cwd='' @ str_of repr (get p ''cwd'' (JStr '''')))
                 | _ \<Rightarrow> Inr ''turn context'')
              else if event_type = JStr ''response_item'' then
                (case payload of
                   JObj p \<Rightarrow>
                     (let item_type = get p ''type'' JNull
                      in if item_type = JStr ''function_call'' then
                           Inr (''tool call '' @ str_of repr (get p ''name'' (JStr ''unknown'')))
                         else if item_type = JStr ''function_call_output'' then Inr ''tool output''
                         else if item_type = JStr ''reasoning'' then Inr ''reasoning item''
                         else if item_type = JStr ''message'' then
                           (let role = get p ''role'' (JStr ''unknown'');
                                snippet = extract_message_text p
                            in if snippet \<noteq> []
                               then Inr (''message '' @ str_of repr role @ '': '' @ truncate snippet 100)
                               else Inr (''message '' @ str_of repr role))
                         else Inr (''response item '' @ str_of repr item_type))
                 | _ \<Rightarrow> Inr ''response item'')
              else if event_type = JStr ''event_msg'' then
                (case payload of
                   JObj p \<Rightarrow>
                     (let msg_type = get p ''type'' (JStr '''')
                      in if msg_type = JStr ''token_count'' then Inr []
                         else if truthy msg_type then Inr (''event '' @ str_of repr msg_type)
                         else Inr ''event message'')
                 | _ \<Rightarrow> Inr ''event message'')
              else if truthy event_type then Inr (str_of repr event_type)
              else Inr [])
      | _ \<Rightarrow> Inl AttributeError)"

subsection \<open>The follow loop\<close>

text \<open>
  \<^verbatim>\<open>offsets\<close> is a dictionary from log path to read position.  Python dictionaries
  keep insertion order and the loop walks \<^verbatim>\<open>list(offsets)\<close>, so the model is an
  association list: \<^const>\<open>AList.update\<close> overwrites in place or appends,
  \<^const>\<open>AList.delete\<close> is \<^verbatim>\<open>offsets.pop(path, None)\<close>.  A function that prints
  returns the printed lines, and next to them the exception that ended it, if any.
\<close>

type_synonym offsets = "(path \<times> nat) list"

fun track_sessions ::
  "fs \<Rightarrow> real \<Rightarrow> int \<Rightarrow> bool \<Rightarrow> SessionRecord list \<Rightarrow> offsets \<Rightarrow> offsets" where
  \<comment> \<open>the first \<^verbatim>\<open>for record in sessions\<close> loop: a newly seen active log starts at
      its current size, or at 0 with \<^verbatim>\<open>--from-start\<close>\<close>
  "track_sessions files now active_minutes from_start [] offsets = offsets"
| "track_sessions files now active_minutes from_start (record # rest) offsets =
     (if \<not> is_active files now (SessionRecord.log_path record) active_minutes
      then track_sessions files now active_minutes from_start rest offsets
      else if map_of offsets (SessionRecord.log_path record) \<noteq> None
      then track_sessions files now active_minutes from_start rest offsets
      else
        (case files (SessionRecord.log_path record) of
           None \<Rightarrow> track_sessions files now active_minutes from_start rest offsets
         | Some f \<Rightarrow>
             track_sessions files now active_minutes from_start rest
               (AList.update (SessionRecord.log_path record)
                  (if from_start then 0 else length (content f)) offsets)))"

fun follow_lines ::
  "(string \<Rightarrow> error + json) \<Rightarrow> (json \<Rightarrow> string) \<Rightarrow> SessionRecord option \<Rightarrow> path \<Rightarrow> string list
     \<Rightarrow> string list \<times> error option"
where
  \<comment> \<open>the body of \<^verbatim>\<open>for line in handle\<close> in \<^verbatim>\<open>command_follow\<close>, on the lines
      handed over; \<open>cached\<close> is \<^verbatim>\<open>cache.get(path)\<close>.  Only
      \<^verbatim>\<open>JSONDecodeError\<close> is caught.  Where \<^const>\<open>summarize_event\<close> returns,
      \<open>obj\<close> is a dictionary.\<close>
  "follow_lines loads repr cached p [] = ([], None)"
| "follow_lines loads repr cached p (line # rest) =
     (case loads line of
        Inl e \<Rightarrow>
          (if e = JSONDecodeError then follow_lines loads repr cached p rest else ([], Some e))
      | Inr obj \<Rightarrow>
          (case summarize_event repr obj of
             Inl e \<Rightarrow> ([], Some e)
           | Inr summary \<Rightarrow>
               (if summary = [] then follow_lines loads repr cached p rest
                else
                  (let ts = str_of repr (get (as_dict obj) ''timestamp'' (JStr ''''));
                       printed =
                         (case cached of
                            Some record \<Rightarrow>
                              ts @ '' | '' @ SessionRecord.session_id record @ '' | ''
                                @ SessionRecord.role record @ '' | '' @ cwd record @ '' | ''
                                @ summary @ '' | '' @ p
                          | None \<Rightarrow> ts @ '' | unknown | '' @ summary @ '' | '' @ p);
                       (out, err) = follow_lines loads repr cached p rest
                   in (printed # out, err)))))"

definition follow_path ::
  "(string \<Rightarrow> error + json) \<Rightarrow> (json \<Rightarrow> string) \<Rightarrow> fs \<Rightarrow> (path \<Rightarrow> SessionRecord option) \<Rightarrow> path
     \<Rightarrow> offsets \<Rightarrow> string list \<times> (error + offsets)"
where
  \<comment> \<open>the body of \<^verbatim>\<open>for path in list(offsets)\<close>.  The handle is positioned at the
      stored offset, which may lie past the end; reading to the end moves it by the
      number of bytes read, and \<^verbatim>\<open>handle.tell()\<close> is where it stands then.  An
      exception of the loop body ends the reading; one of the decoder comes after the
      lines handed over before it.  Only \<^verbatim>\<open>OSError\<close> is caught.\<close>
  "follow_path loads repr files cache p offsets =
     (case files p of
        None \<Rightarrow> ([], Inr (AList.delete p offsets))
      | Some f \<Rightarrow>
          (if \<not> readable f then ([], Inr (AList.delete p offsets))
           else
             (case map_of offsets p of
                None \<Rightarrow> ([], Inl KeyError)
              | Some off \<Rightarrow>
                  (let unread = drop off (content f);
                       (lines, failure) = read_text unread;
                       (printed, err) = follow_lines loads repr (cache p) p lines
                   in case err of
                        Some e \<Rightarrow> (printed, Inl e)
                      | None \<Rightarrow>
                          (case failure of
                             Some e \<Rightarrow> (printed, Inl e)
                           | None \<Rightarrow>
                               (printed, Inr (AList.update p (off + length unread) offsets)))))))"

fun follow_paths ::
  "(string \<Rightarrow> error + json) \<Rightarrow> (json \<Rightarrow> string) \<Rightarrow> fs \<Rightarrow> (path \<Rightarrow> SessionRecord option) \<Rightarrow> path list
     \<Rightarrow> offsets \<Rightarrow> string list \<times> (error + offsets)"
where
  "follow_paths loads repr files cache [] offsets = ([], Inr offsets)"
| "follow_paths loads repr files cache (p # ps) offsets =
     (case follow_path loads repr files cache p offsets of
        (printed, Inl e) \<Rightarrow> (printed, Inl e)
      | (printed, Inr offsets1) \<Rightarrow>
          (let (printed_rest, r) = follow_paths loads repr files cache ps offsets1
           in (printed @ printed_rest, r)))"

definition follow_poll ::
  "(string \<Rightarrow> error + json) \<Rightarrow> (json \<Rightarrow> string) \<Rightarrow> (string \<Rightarrow> string) \<Rightarrow> (string \<Rightarrow> int option)
     \<Rightarrow> fs \<Rightarrow> path list \<Rightarrow> string \<Rightarrow> int \<Rightarrow> real \<Rightarrow> int \<Rightarrow> bool
     \<Rightarrow> offsets \<Rightarrow> string list \<times> (error + offsets)"
where
  \<comment> \<open>one round of \<^verbatim>\<open>while True\<close> in \<^verbatim>\<open>command_follow\<close>, on one snapshot of the
      files: discovery, cut to \<^verbatim>\<open>max(args.recent, 1)\<close> sessions, then the two loops.
      Nothing in the round catches an exception that leaves discovery or a path.\<close>
  "follow_poll loads repr realpath fromisoformat files log_files project_root recent now
       active_minutes from_start offsets =
     (case discover_sessions loads repr realpath fromisoformat files log_files project_root of
        Inl e \<Rightarrow> ([], Inl e)
      | Inr discovered \<Rightarrow>
          (let sessions = take (nat (max recent 1)) discovered;
               cache = map_of (rev (map (\<lambda>record. (SessionRecord.log_path record, record)) sessions));
               tracked = track_sessions files now active_minutes from_start sessions offsets
           in follow_paths loads repr files cache (map fst tracked) tracked))"

section \<open>heartbeat\_monitor.py\<close>

text \<open>
  Each constructor of \<open>line\<close> is one printed line, holding the values its f-string
  formats, in their order; an empty \<^verbatim>\<open>added\<close> or \<^verbatim>\<open>removed\<close> list prints as a dash.
\<close>

datatype line =
    ErrorLine string string
  | DeltaSessions string nat "string list" "string list"
  | DeltaSessionsDetail string ActiveSession
  | DeltaGit string topology
  | Heartbeat string nat nat nat string bool nat nat
  | HeartbeatSessionsNone string
  | HeartbeatSessions string "string list"

datatype outcome = Return int | Sleep real | Raise error

definition summarize_roles :: "ActiveSession list \<Rightarrow> nat \<times> nat" where
  "summarize_roles active =
     (length (filter (\<lambda>item. role item = ''primary'') active),
      length (filter (\<lambda>item. role item = ''subagent'') active))"

fun detail_lines ::
  "string \<Rightarrow> (string \<Rightarrow> ActiveSession option) \<Rightarrow> string list \<Rightarrow> line list \<times> error option" where
  \<comment> \<open>the \<^verbatim>\<open>for sid in added[:8]\<close> loop; \<^verbatim>\<open>active_by_id[sid]\<close> raises
      \<^verbatim>\<open>KeyError\<close> on a missing key\<close>
  "detail_lines ts active_by_id [] = ([], None)"
| "detail_lines ts active_by_id (sid # sids) =
     (case active_by_id sid of
        None \<Rightarrow> ([], Some KeyError)
      | Some item \<Rightarrow>
          (let (out, err) = detail_lines ts active_by_id sids
           in (DeltaSessionsDetail ts item # out, err)))"

definition emit_session_delta ::
  "string \<Rightarrow> string list \<Rightarrow> string list \<Rightarrow> ActiveSession list \<Rightarrow> line list \<times> error option" where
  "emit_session_delta ts prev_ids cur_ids active =
     (let added = sorted_list_of_set (set cur_ids - set prev_ids);
          removed = sorted_list_of_set (set prev_ids - set cur_ids);
          active_by_id = map_of (rev (map (\<lambda>item. (session_id item, item)) active));
          (details, err) = detail_lines ts active_by_id (take 8 added)
      in (DeltaSessions ts (length cur_ids) added removed # details, err))"

definition emit_heartbeat :: "string \<Rightarrow> ActiveSession list \<Rightarrow> topology \<Rightarrow> line list" where
  "emit_heartbeat ts active topo =
     (let (primary, subagent) = summarize_roles active;
          hot = take 5 active
      in Heartbeat ts (length active) primary subagent (base_ref topo) (root_dirty topo)
           (length (dirty_worktrees topo)) (length (diverged topo))
         # (if hot = [] then [HeartbeatSessionsNone ts]
            else [HeartbeatSessions ts
                    (map (\<lambda>item. take 8 (session_id item) @ '':''
                                  @ (if role item = ''primary'' then ''p'' else ''s'') @ '':''
                                  @ branch item) hot)]))"

text \<open>
  What one cycle of \<^verbatim>\<open>while True\<close> reads from outside: the monotonic clock at the
  start of the cycle, the time stamp, what \<^verbatim>\<open>load_active_sessions\<close> and
  \<^verbatim>\<open>load_topology\<close> gave (or the text of the exception either raised), the monotonic
  clock before the heartbeat test, and the monotonic clock before the sleep.
\<close>

type_synonym cycle_input =
  "real \<times> string \<times> (string + ActiveSession list \<times> topology) \<times> real \<times> real"

fun cycle :: "args \<Rightarrow> loop_state \<Rightarrow> cycle_input \<Rightarrow> line list \<times> loop_state \<times> outcome" where
  "cycle a st (loop_start, ts, loaded, now_mono, end_mono) =
     (case loaded of
        Inl exc \<Rightarrow>
          ([ErrorLine ts exc], st,
           if once a then Return 2 else Sleep (max (poll_interval a) 0.5))
      | Inr (active, topo) \<Rightarrow>
          (let session_ids = map session_id active;
               (out1, err) =
                 (if session_ids \<noteq> prev_session_ids st
                  then emit_session_delta ts (prev_session_ids st) session_ids active
                  else ([], None))
           in case err of
                Some e \<Rightarrow> (out1, st, Raise e)
              | None \<Rightarrow>
                  (let st1 = (if session_ids \<noteq> prev_session_ids st
                              then st\<lparr>prev_session_ids := session_ids\<rparr> else st);
                       out2 = (if prev_topology st1 \<noteq> Some topo then [DeltaGit ts topo] else []);
                       st2 = (if prev_topology st1 \<noteq> Some topo
                              then st1\<lparr>prev_topology := Some topo\<rparr> else st1);
                       due = (now_mono \<ge> next_heartbeat st2);
                       out3 = (if due then emit_heartbeat ts active topo else []);
                       st3 = (if due
                              then st2\<lparr>next_heartbeat := now_mono + max (heartbeat_interval a) 1\<rparr>
                              else st2)
                   in (out1 @ out2 @ out3, st3,
                       if once a then Return 0
                       else Sleep (max (poll_interval a - (end_mono - loop_start)) 0.5)))))"

fun main_loop :: "args \<Rightarrow> loop_state \<Rightarrow> cycle_input list \<Rightarrow> line list \<times> outcome option" where
  \<comment> \<open>the \<^verbatim>\<open>while True\<close> loop run on the inputs of its successive cycles; the loop
      itself never ends, so when the inputs run out (the process is interrupted)
      there is no outcome\<close>
  "main_loop a st [] = ([], None)"
| "main_loop a st (c # cs) =
     (case cycle a st c of
        (out, st1, Sleep d) \<Rightarrow>
          (let (out_rest, r) = main_loop a st1 cs in (out @ out_rest, r))
      | (out, st1, oc) \<Rightarrow> (out, Some oc))"

definition initial_state :: loop_state where
  "initial_state = \<lparr>prev_session_ids = [], prev_topology = None, next_heartbeat = 0\<rparr>"

definition main :: "args \<Rightarrow> cycle_input list \<Rightarrow> line list \<times> outcome option" where
  "main a inputs = main_loop a initial_state inputs"

section \<open>Concrete repositories, logs and cycles\<close>

text \<open>
  The inputs at which the theorems below are evaluated.  A repository answers the
  queries listed and fails every other one, as git does for a ref that is unknown.
\<close>

definition repo_remote_only :: git where
  \<comment> \<open>\<^verbatim>\<open>dev\<close> exists on the remote only\<close>
  "repo_remote_only a =
     (if a = [''rev-parse'', ''--verify'', ''--quiet'', ''origin/dev'']
      then \<lparr>returncode = 0, stdout = ''4f2a'', stderr = ''''\<rparr>
      else \<lparr>returncode = 1, stdout = '''', stderr = ''''\<rparr>)"

definition repo_bad_counts :: git where
  \<comment> \<open>the count query for \<^verbatim>\<open>dev\<close> prints two fields that are not numbers\<close>
  "repo_bad_counts a =
     (if a = [''for-each-ref'', ''--format=%(refname:short)'', ''refs/heads'']
      then \<lparr>returncode = 0, stdout = ''dev'' @ [CHR 0x0A] @ ''main'' @ [CHR 0x0A], stderr = ''''\<rparr>
      else if a = [''rev-list'', ''--left-right'', ''--count'', ''dev...main'']
      then \<lparr>returncode = 0, stdout = ''x y'', stderr = ''''\<rparr>
      else \<lparr>returncode = 1, stdout = '''', stderr = ''''\<rparr>)"

definition repo_three :: git where
  \<comment> \<open>three branches; the count query for \<^verbatim>\<open>fix\<close> prints nothing\<close>
  "repo_three a =
     (if a = [''for-each-ref'', ''--format=%(refname:short)'', ''refs/heads'']
      then \<lparr>returncode = 0,
            stdout = ''main'' @ [CHR 0x0A] @ ''dev'' @ [CHR 0x0A] @ ''fix'' @ [CHR 0x0A],
            stderr = ''''\<rparr>
      else if a = [''rev-list'', ''--left-right'', ''--count'', ''dev...origin/main'']
      then \<lparr>returncode = 0, stdout = ''3'' @ [CHR 0x09] @ ''1'' @ [CHR 0x0A], stderr = ''''\<rparr>
      else if a = [''rev-list'', ''--left-right'', ''--count'', ''fix...origin/main'']
      then \<lparr>returncode = 0, stdout = '''', stderr = ''''\<rparr>
      else \<lparr>returncode = 1, stdout = '''', stderr = ''''\<rparr>)"

definition repo_ok :: git where
  \<comment> \<open>three branches with well-formed counts\<close>
  "repo_ok a =
     (if a = [''for-each-ref'', ''--format=%(refname:short)'', ''refs/heads'']
      then \<lparr>returncode = 0,
            stdout = ''main'' @ [CHR 0x0A] @ ''dev'' @ [CHR 0x0A] @ ''fix'' @ [CHR 0x0A],
            stderr = ''''\<rparr>
      else if a = [''rev-list'', ''--left-right'', ''--count'', ''dev...origin/main'']
      then \<lparr>returncode = 0, stdout = ''3'' @ [CHR 0x09] @ ''1'' @ [CHR 0x0A], stderr = ''''\<rparr>
      else if a = [''rev-list'', ''--left-right'', ''--count'', ''fix...origin/main'']
      then \<lparr>returncode = 0, stdout = ''0'' @ [CHR 0x09] @ ''2'' @ [CHR 0x0A], stderr = ''''\<rparr>
      else \<lparr>returncode = 1, stdout = '''', stderr = ''''\<rparr>)"

definition repo_upstream :: git where
  \<comment> \<open>two branches, compared against the branch of a remote named \<^verbatim>\<open>upstream\<close>\<close>
  "repo_upstream a =
     (if a = [''for-each-ref'', ''--format=%(refname:short)'', ''refs/heads'']
      then \<lparr>returncode = 0, stdout = ''dev'' @ [CHR 0x0A] @ ''main'' @ [CHR 0x0A], stderr = ''''\<rparr>
      else if a = [''rev-list'', ''--left-right'', ''--count'', ''dev...upstream/main'']
      then \<lparr>returncode = 0, stdout = ''1'' @ [CHR 0x09] @ ''0'' @ [CHR 0x0A], stderr = ''''\<rparr>
      else if a = [''rev-list'', ''--left-right'', ''--count'', ''main...upstream/main'']
      then \<lparr>returncode = 0, stdout = ''0'' @ [CHR 0x09] @ ''2'' @ [CHR 0x0A], stderr = ''''\<rparr>
      else \<lparr>returncode = 1, stdout = '''', stderr = ''''\<rparr>)"

text \<open>
  Log lines as the session logs hold them, and the values \<^verbatim>\<open>json.loads\<close> gives for
  them; every other text met here is not JSON.  One line is a number, which is valid
  JSON though no event; one is cut off in the middle of an object.
\<close>

definition quoted :: "string \<Rightarrow> string" where
  "quoted s = CHR 0x22 # s @ [CHR 0x22]"

definition line_meta :: string where
  "line_meta =
     ''{'' @ quoted ''type'' @ '':'' @ quoted ''session_meta'' @ '','' @ quoted ''payload'' @ '':{''
       @ quoted ''id'' @ '':'' @ quoted ''s-good'' @ '','' @ quoted ''timestamp'' @ '':''
       @ quoted ''2026-01-01T00:00:00Z'' @ '','' @ quoted ''cwd'' @ '':'' @ quoted ''/x/proj''
       @ ''}}'' @ [CHR 0x0A]"

definition line_meta_bad :: string where
  "line_meta_bad =
     ''{'' @ quoted ''type'' @ '':'' @ quoted ''session_meta'' @ '','' @ quoted ''payload'' @ '':{''
       @ quoted ''id'' @ '':'' @ quoted ''s-bad'' @ '','' @ quoted ''timestamp'' @ '':''
       @ quoted ''yesterday'' @ '','' @ quoted ''cwd'' @ '':'' @ quoted ''/x/proj/sub''
       @ ''}}'' @ [CHR 0x0A]"

definition line_turn :: string where
  "line_turn =
     ''{'' @ quoted ''type'' @ '':'' @ quoted ''turn_context'' @ '','' @ quoted ''timestamp'' @ '':''
       @ quoted ''2026-01-01T00:00:05Z'' @ '','' @ quoted ''payload'' @ '':{''
       @ quoted ''cwd'' @ '':'' @ quoted ''/x/proj'' @ ''}}'' @ [CHR 0x0A]"

definition line_tokens :: string where
  "line_tokens =
     ''{'' @ quoted ''type'' @ '':'' @ quoted ''event_msg'' @ '','' @ quoted ''payload'' @ '':{''
       @ quoted ''type'' @ '':'' @ quoted ''token_count'' @ ''}}'' @ [CHR 0x0A]"

definition line_torn :: string where
  "line_torn = ''{'' @ quoted ''type'' @ '':'' @ [CHR 0x0A]"

definition line_number :: string where
  "line_number = ''42'' @ [CHR 0x0A]"

definition json_trim :: "string \<Rightarrow> string" where
  \<comment> \<open>the whitespace JSON allows around a value: space, tab, line feed, carriage return\<close>
  "json_trim s =
     rev (dropWhile (\<lambda>c. c \<in> set [CHR 0x20, CHR 0x09, CHR 0x0A, CHR 0x0D])
       (rev (dropWhile (\<lambda>c. c \<in> set [CHR 0x20, CHR 0x09, CHR 0x0A, CHR 0x0D]) s)))"

definition loads_log :: "string \<Rightarrow> error + json" where
  "loads_log s =
     (case map_of
       [(json_trim line_meta,
           JObj [(''type'', JStr ''session_meta''),
                 (''payload'', JObj [(''id'', JStr ''s-good''),
                                     (''timestamp'', JStr ''2026-01-01T00:00:00Z''),
                                     (''cwd'', JStr ''/x/proj'')])]),
        (json_trim line_meta_bad,
           JObj [(''type'', JStr ''session_meta''),
                 (''payload'', JObj [(''id'', JStr ''s-bad''),
                                     (''timestamp'', JStr ''yesterday''),
                                     (''cwd'', JStr ''/x/proj/sub'')])]),
        (json_trim line_turn,
           JObj [(''type'', JStr ''turn_context''),
                 (''timestamp'', JStr ''2026-01-01T00:00:05Z''),
                 (''payload'', JObj [(''cwd'', JStr ''/x/proj'')])]),
        (json_trim line_tokens,
           JObj [(''type'', JStr ''event_msg''),
                 (''payload'', JObj [(''type'', JStr ''token_count'')])]),
        (json_trim line_number, JInt 42)]
       (json_trim s) of
        Some v \<Rightarrow> Inr v
      | None \<Rightarrow> Inl JSONDecodeError)"

definition repr_unused :: "json \<Rightarrow> string" where
  \<comment> \<open>no number, list or dictionary is formatted in these logs\<close>
  "repr_unused v = []"

definition fromisoformat_table :: "string \<Rightarrow> int option" where
  "fromisoformat_table s = map_of [(''2026-01-01T00:00:00+00:00'', 1767225600000000)] s"

definition realpath_plain :: "string \<Rightarrow> string" where
  \<comment> \<open>no symbolic links, and the paths are absolute and normalized already\<close>
  "realpath_plain s = s"

definition log_a :: path where
  "log_a = ''/home/u/.codex/sessions/a.jsonl''"

definition log_b :: path where
  "log_b = ''/home/u/.codex/sessions/b.jsonl''"

definition session_good :: SessionRecord where
  "session_good =
     \<lparr>SessionRecord.session_id = ''s-good'', started_at = ''2026-01-01T00:00:00Z'',
      cwd = ''/x/proj'', role = ''primary'', parent_thread_id = '''', depth = '''',
      git_branch = '''', log_path = log_a\<rparr>"

definition session_bad :: SessionRecord where
  "session_bad =
     \<lparr>SessionRecord.session_id = ''s-bad'', started_at = ''yesterday'',
      cwd = ''/x/proj/sub'', role = ''primary'', parent_thread_id = '''', depth = '''',
      git_branch = '''', log_path = log_b\<rparr>"

definition files_grown :: fs where
  \<comment> \<open>three lines were appended after the session line\<close>
  "files_grown =
     [log_a \<mapsto> \<lparr>content = line_meta @ concat [line_turn, line_tokens, line_torn],
                 readable = True, mtime = 100\<rparr>]"

definition files_short :: fs where
  \<comment> \<open>a log of three characters\<close>
  "files_short = [log_a \<mapsto> \<lparr>content = line_number, readable = True, mtime = 100\<rparr>]"

definition files_appended :: fs where
  \<comment> \<open>the number line was appended after the session line\<close>
  "files_appended =
     [log_a \<mapsto> \<lparr>content = line_meta @ line_number, readable = True, mtime = 100\<rparr>]"

definition files_two :: fs where
  "files_two =
     [log_a \<mapsto> \<lparr>content = line_meta @ line_turn, readable = True, mtime = 100\<rparr>,
      log_b \<mapsto> \<lparr>content = line_meta_bad, readable = True, mtime = 100\<rparr>]"

definition cache_a :: "path \<Rightarrow> SessionRecord option" where
  "cache_a = [log_a \<mapsto> session_good]"


definition active_session :: "string \<Rightarrow> string \<Rightarrow> ActiveSession" where
  "active_session sid started =
     \<lparr>session_id = sid, role = ''primary'', branch = ''main'', parent_thread_id = '''',
      started_at = started, last_timestamp = '''', last_summary = '''',
      log_path = ''/home/u/.codex/sessions/'' @ sid @ ''.jsonl''\<rparr>"

definition topo_clean :: topology where
  "topo_clean =
     \<lparr>base_ref = ''main'', root_dirty = False, dirty_worktrees = [], prunable_worktrees = [],
      diverged = []\<rparr>"

definition args_loop :: args where
  "args_loop = \<lparr>once = False, poll_interval = 5, heartbeat_interval = 20\<rparr>"

definition args_once :: args where
  "args_once = \<lparr>once = True, poll_interval = 5, heartbeat_interval = 3600\<rparr>"

definition nine_sessions :: "ActiveSession list" where
  "nine_sessions =
     [active_session ''s9'' ''2026-01-09T00:00:00Z'',
      active_session ''s8'' ''2026-01-08T00:00:00Z'',
      active_session ''s7'' ''2026-01-07T00:00:00Z'',
      active_session ''s6'' ''2026-01-06T00:00:00Z'',
      active_session ''s5'' ''2026-01-05T00:00:00Z'',
      active_session ''s4'' ''2026-01-04T00:00:00Z'',
      active_session ''s3'' ''2026-01-03T00:00:00Z'',
      active_session ''s2'' ''2026-01-02T00:00:00Z'',
      active_session ''s1'' ''2026-01-01T00:00:00Z'']"




section \<open>Evaluation rules and auxiliary facts\<close>

lemmas text_eval = strip_def isspace_def splitlines_def is_linebreak_def startswith_def
  removeprefix_def split_ws_def py_int_def is_digit_def digit_val_def digits_val_def
  lower_def lower_char_def

lemmas git_eval = run_git_def ref_exists_def list_local_branches_def
  normalize_base_branch_name_def branch_deltas_def sorted_desc_def

lemma set_sorted_desc: "set (sorted_desc f xs) = set xs"
  by (simp add: sorted_desc_def)

lemma deltas_loop_names:
  assumes "deltas_loop g base nb bs deltas = Inr ds"
    and "\<forall>d \<in> set deltas. BranchDelta.branch d \<noteq> nb"
  shows "\<forall>d \<in> set ds. BranchDelta.branch d \<noteq> nb"
  using assms
proof (induction bs arbitrary: deltas)
  case Nil
  then show ?case by simp
next
  case (Cons b bs)
  show ?case
  proof (cases "b = nb")
    case True
    with Cons show ?thesis by simp
  next
    case False
    with Cons.prems(1) consider
        "deltas_loop g base nb bs deltas = Inr ds"
      | a h where "deltas_loop g base nb bs
            (deltas @ [\<lparr>BranchDelta.branch = b, ahead_of_base = a, behind_base = h\<rparr>]) = Inr ds"
      by (auto simp add: Let_def split: sum.splits if_splits)
    then show ?thesis
    proof cases
      case 1
      then show ?thesis using Cons.IH Cons.prems(2) by blast
    next
      case 2
      have "\<forall>d \<in> set (deltas @ [\<lparr>BranchDelta.branch = b, ahead_of_base = a, behind_base = h\<rparr>]).
              BranchDelta.branch d \<noteq> nb"
        using Cons.prems(2) False by simp
      with 2 show ?thesis using Cons.IH by blast
    qed
  qed
qed

lemmas log_eval = quoted_def line_meta_def line_meta_bad_def line_turn_def line_tokens_def
  line_torn_def line_number_def json_trim_def loads_log_def repr_unused_def log_a_def log_b_def
  files_grown_def files_short_def files_two_def cache_a_def session_good_def session_bad_def
  files_appended_def fromisoformat_table_def realpath_plain_def

lemmas session_eval = read_session_meta_def read_text_def chunks_of_def CHUNK_SIZE_def
  utf8_start_def utf8_lead_def strip_utf8_def space_first_def space_last_def utf8_spaces_def
  to_session_record_def get_def as_dict_def py_or_def
  is_within_root_def commonpath_def parse_iso_def discover_sessions_def follow_path_def
  summarize_event_def

lemma read_text_empty: "read_text [] = ([], None)"
  by (simp add: read_text_def chunks_of_def utf8_start_def)

lemma follow_path_read:
  assumes "files p = Some f" and "readable f" and "map_of offsets p = Some off"
  shows "follow_path loads repr files cache p offsets =
           (fst (follow_lines loads repr (cache p) p (fst (read_text (drop off (content f))))),
            case snd (follow_lines loads repr (cache p) p (fst (read_text (drop off (content f))))) of
              Some e \<Rightarrow> Inl e
            | None \<Rightarrow>
                (case snd (read_text (drop off (content f))) of
                   Some e \<Rightarrow> Inl e
                 | None \<Rightarrow> Inr (AList.update p (off + length (drop off (content f))) offsets)))"
  using assms by (simp add: follow_path_def Let_def case_prod_beta split: option.splits)

lemma discover_loop_mono:
  "discover_loop loads repr realpath files project_root ps results = Inr rs \<Longrightarrow> set results \<subseteq> set rs"
proof (induction ps arbitrary: results)
  case Nil
  then show ?case by simp
next
  case (Cons p ps)
  from Cons.prems consider
      "discover_loop loads repr realpath files project_root ps results = Inr rs"
    | r where "discover_loop loads repr realpath files project_root ps (results @ [r]) = Inr rs"
    by (auto split: sum.splits option.splits if_splits)
  then show ?case
  proof cases
    case 1
    then show ?thesis by (rule Cons.IH)
  next
    case 2
    from Cons.IH [OF 2] show ?thesis by simp
  qed
qed

lemma discover_loop_keeps:
  assumes "discover_loop loads repr realpath files project_root ps results = Inr rs"
    and "p \<in> set ps"
    and "read_session_meta loads files p = Inr (Some meta)" and "meta \<noteq> []"
    and "to_session_record repr p meta = Some record"
    and "is_within_root realpath project_root (cwd record)"
  shows "record \<in> set rs"
  using assms(1,2)
proof (induction ps arbitrary: results)
  case Nil
  then show ?case by simp
next
  case (Cons q ps)
  show ?case
  proof (cases "q = p")
    case True
    with Cons.prems(1) assms(3-6)
    have "discover_loop loads repr realpath files project_root ps (results @ [record]) = Inr rs"
      by simp
    from discover_loop_mono [OF this] show ?thesis by simp
  next
    case False
    with Cons.prems(2) have p: "p \<in> set ps" by simp
    from Cons.prems(1) consider
        "discover_loop loads repr realpath files project_root ps results = Inr rs"
      | r where "discover_loop loads repr realpath files project_root ps (results @ [r]) = Inr rs"
      by (auto split: sum.splits option.splits if_splits)
    then show ?thesis
      using Cons.IH p by cases blast+
  qed
qed

lemma sorted_diff_code:
  "sorted_list_of_set (set xs - set ys) = sort (remdups (filter (\<lambda>x. x \<notin> set ys) xs))"
proof -
  have "set xs - set ys = set (filter (\<lambda>x. x \<notin> set ys) xs)" by auto
  then show ?thesis by (simp only: sorted_list_of_set_sort_remdups)
qed

lemma active_by_id_lookup:
  assumes "sid \<in> session_id ` set active"
  shows "\<exists>item \<in> set active. session_id item = sid
           \<and> map_of (rev (map (\<lambda>item. (session_id item, item)) active)) sid = Some item"
proof -
  let ?m = "map_of (rev (map (\<lambda>item. (session_id item, item)) active))"
  from assms have "sid \<in> fst ` set (rev (map (\<lambda>item. (session_id item, item)) active))"
    by (auto simp add: image_image)
  then obtain item where item: "?m sid = Some item"
    by (meson domD domI map_of_eq_None_iff option.exhaust)
  then have "(sid, item) \<in> set (rev (map (\<lambda>item. (session_id item, item)) active))"
    by (rule map_of_SomeD)
  then have "item \<in> set active" and "session_id item = sid" by auto
  with item show ?thesis by blast
qed

lemma detail_lines_ok:
  assumes "set sids \<subseteq> session_id ` set active"
  shows "snd (detail_lines ts (map_of (rev (map (\<lambda>item. (session_id item, item)) active))) sids) = None
       \<and> list_all2 (\<lambda>sid l. \<exists>item \<in> set active. session_id item = sid \<and> l = DeltaSessionsDetail ts item)
           sids (fst (detail_lines ts (map_of (rev (map (\<lambda>item. (session_id item, item)) active))) sids))"
  using assms
proof (induction sids)
  case Nil
  show ?case by simp
next
  case (Cons sid sids)
  then have "sid \<in> session_id ` set active" by simp
  from active_by_id_lookup [OF this] obtain item where
    "item \<in> set active" "session_id item = sid"
    "map_of (rev (map (\<lambda>item. (session_id item, item)) active)) sid = Some item"
    by blast
  with Cons show ?case by (simp add: case_prod_beta)
qed

lemma emit_session_delta_ok:
  fixes active :: "ActiveSession list"
  defines "ids \<equiv> map session_id active"
  shows "\<exists>details.
           emit_session_delta ts prev_ids ids active
             = (DeltaSessions ts (length active)
                  (sorted_list_of_set (set ids - set prev_ids))
                  (sorted_list_of_set (set prev_ids - set ids)) # details, None)
         \<and> list_all2 (\<lambda>sid l. \<exists>item \<in> set active. session_id item = sid \<and> l = DeltaSessionsDetail ts item)
             (take 8 (sorted_list_of_set (set ids - set prev_ids))) details"
proof -
  let ?added = "sorted_list_of_set (set ids - set prev_ids)"
  have "set (take 8 ?added) \<subseteq> set ?added" by (rule set_take_subset)
  also have "\<dots> \<subseteq> session_id ` set active" by (auto simp add: ids_def)
  finally have sub: "set (take 8 ?added) \<subseteq> session_id ` set active" .
  from detail_lines_ok [OF sub, of ts] show ?thesis
    by (simp add: emit_session_delta_def Let_def case_prod_beta ids_def)
qed

lemma emit_session_delta_lists:
  "emit_session_delta ts prev_ids cur_ids active =
     (let added = sort (remdups (filter (\<lambda>sid. sid \<notin> set prev_ids) cur_ids));
          removed = sort (remdups (filter (\<lambda>sid. sid \<notin> set cur_ids) prev_ids));
          active_by_id = map_of (rev (map (\<lambda>item. (session_id item, item)) active));
          (details, err) = detail_lines ts active_by_id (take 8 added)
      in (DeltaSessions ts (length cur_ids) added removed # details, err))"
  by (simp only: emit_session_delta_def sorted_diff_code)

lemmas cycle_eval = active_session_def topo_clean_def args_loop_def args_once_def
  nine_sessions_def emit_session_delta_lists emit_heartbeat_def summarize_roles_def
  initial_state_def main_def

lemma cycle_loaded:
  "cycle a st (loop_start, ts, Inr (active, topo), now_mono, end_mono) =
     ((if map session_id active \<noteq> prev_session_ids st
       then fst (emit_session_delta ts (prev_session_ids st) (map session_id active) active)
       else [])
      @ (if prev_topology st \<noteq> Some topo then [DeltaGit ts topo] else [])
      @ (if now_mono \<ge> next_heartbeat st then emit_heartbeat ts active topo else []),
      st\<lparr>prev_session_ids := map session_id active, prev_topology := Some topo,
         next_heartbeat := (if now_mono \<ge> next_heartbeat st
                            then now_mono + max (heartbeat_interval a) 1
                            else next_heartbeat st)\<rparr>,
      if once a then Return 0 else Sleep (max (poll_interval a - (end_mono - loop_start)) 0.5))"
proof -
  obtain details where
    "emit_session_delta ts (prev_session_ids st) (map session_id active) active
       = (DeltaSessions ts (length active)
            (sorted_list_of_set (set (map session_id active) - set (prev_session_ids st)))
            (sorted_list_of_set (set (prev_session_ids st) - set (map session_id active)))
          # details, None)"
    using emit_session_delta_ok [of ts "prev_session_ids st" active] by blast
  then show ?thesis
    by (cases "prev_topology st = Some topo") (simp_all add: Let_def)
qed


lemma cycle_failed:
  "\<not> once a \<Longrightarrow> cycle a st (loop_start, ts, Inl exc, now_mono, end_mono)
     = ([ErrorLine ts exc], st, Sleep (max (poll_interval a) 0.5))"
  by simp

lemma main_loop_after_failures:
  assumes "\<not> once a" and "\<forall>c \<in> set failed. \<exists>exc. fst (snd (snd c)) = Inl exc"
  shows "set (fst (main_loop a st rest)) \<subseteq> set (fst (main_loop a st (failed @ rest)))"
  using assms(2)
proof (induction failed)
  case Nil
  show ?case by simp
next
  case (Cons c failed)
  obtain loop_start ts loaded now_mono end_mono where c: "c = (loop_start, ts, loaded, now_mono, end_mono)"
    by (cases c) auto
  with Cons.prems obtain exc where "loaded = Inl exc" by auto
  with c assms(1) have "cycle a st c = ([ErrorLine ts exc], st, Sleep (max (poll_interval a) 0.5))"
    by simp
  then have "fst (main_loop a st ((c # failed) @ rest))
      = ErrorLine ts exc # fst (main_loop a st (failed @ rest))"
    by (simp add: case_prod_beta)
  with Cons show ?case by auto
qed

lemma main_loop_first_cycle:
  "set (fst (cycle a st c)) \<subseteq> set (fst (main_loop a st (c # later)))"
  by (cases "cycle a st c" rule: prod_cases3)
     (auto simp add: case_prod_beta split: outcome.splits)

section \<open>Claims about git\_coordination.py\<close>

text \<open>
  Claim C7.  \<^const>\<open>categorize_branch\<close> is the pure mapping of the specification on
  every pair of counts: behind and not ahead is stale, ahead and behind is diverged,
  ahead and not behind is ahead-only, anything else is in-sync; so (3,0) is ahead-only,
  (0,2) stale, (2,2) diverged and (0,0) in-sync.  The four categories are the four
  labels the function returns.
\<close>

theorem categorize_branch_table:
  "(categorize_branch delta = ''stale: rebase before new work''
      \<longleftrightarrow> behind_base delta > 0 \<and> ahead_of_base delta = 0)
   \<and> (categorize_branch delta = ''diverged: rebase before merge''
      \<longleftrightarrow> ahead_of_base delta > 0 \<and> behind_base delta > 0)
   \<and> (categorize_branch delta = ''ahead only: candidate to merge''
      \<longleftrightarrow> ahead_of_base delta > 0 \<and> behind_base delta = 0)
   \<and> (categorize_branch delta = ''in sync with base''
      \<longleftrightarrow> \<not> (behind_base delta > 0 \<and> ahead_of_base delta = 0)
          \<and> \<not> (ahead_of_base delta > 0 \<and> behind_base delta > 0)
          \<and> \<not> (ahead_of_base delta > 0 \<and> behind_base delta = 0))
   \<and> categorize_branch \<lparr>BranchDelta.branch = b, ahead_of_base = 3, behind_base = 0\<rparr>
        = ''ahead only: candidate to merge''
   \<and> categorize_branch \<lparr>BranchDelta.branch = b, ahead_of_base = 0, behind_base = 2\<rparr>
        = ''stale: rebase before new work''
   \<and> categorize_branch \<lparr>BranchDelta.branch = b, ahead_of_base = 2, behind_base = 2\<rparr>
        = ''diverged: rebase before merge''
   \<and> categorize_branch \<lparr>BranchDelta.branch = b, ahead_of_base = 0, behind_base = 0\<rparr>
        = ''in sync with base''"
  by (auto simp add: categorize_branch_def)

theorem categorize_branch_table_witness:
  "categorize_branch \<lparr>BranchDelta.branch = ''dev'', ahead_of_base = 0, behind_base = 7\<rparr>
     = ''stale: rebase before new work''
   \<and> categorize_branch \<lparr>BranchDelta.branch = ''dev'', ahead_of_base = 3, behind_base = 0\<rparr>
     = ''ahead only: candidate to merge''"
  using categorize_branch_table
    [of "\<lparr>BranchDelta.branch = ''dev'', ahead_of_base = 0, behind_base = 7\<rparr>" "''dev''"]
  by simp

text \<open>
  Claim C5, as stated, fails: a requested name that exists only in its
  remote-qualified form is not returned verbatim.
\<close>

theorem choose_base_ref_counterexample:
  "\<not> ref_exists repo_remote_only ''dev''
   \<and> ref_exists repo_remote_only ''origin/dev''
   \<and> choose_base_ref repo_remote_only ''dev'' = Inr ''origin/dev''
   \<and> choose_base_ref repo_remote_only ''dev'' \<noteq> Inr ''dev''"
  by (simp add: choose_base_ref_def repo_remote_only_def text_eval git_eval)

text \<open>
  Claim C5, amended.  For a requested base ref that, trimmed of surrounding
  whitespace, is neither empty nor \<^verbatim>\<open>auto\<close> in any letter case: if the trimmed name
  exists, \<^const>\<open>choose_base_ref\<close> returns the trimmed name; otherwise, if the name
  prefixed with \<^verbatim>\<open>origin/\<close> exists, it returns that remote-qualified name; if
  neither exists it fails with a \<^const>\<open>RuntimeError\<close>, whatever auto-detection
  would have found.
\<close>

theorem choose_base_ref_explicit:
  assumes "strip requested \<noteq> []" and "lower (strip requested) \<noteq> ''auto''"
  shows "(ref_exists g (strip requested)
            \<longrightarrow> choose_base_ref g requested = Inr (strip requested))
       \<and> (\<not> ref_exists g (strip requested) \<and> ref_exists g (''origin/'' @ strip requested)
            \<longrightarrow> choose_base_ref g requested = Inr (''origin/'' @ strip requested))
       \<and> (\<not> ref_exists g (strip requested) \<and> \<not> ref_exists g (''origin/'' @ strip requested)
            \<longrightarrow> (\<exists>msg. choose_base_ref g requested = Inl (RuntimeError msg)))"
  using assms by (simp add: choose_base_ref_def Let_def)

theorem choose_base_ref_explicit_witness:
  "strip '' dev '' \<noteq> [] \<and> lower (strip '' dev '') \<noteq> ''auto''
   \<and> \<not> ref_exists repo_remote_only (strip '' dev '')
   \<and> ref_exists repo_remote_only (''origin/'' @ strip '' dev '')
   \<and> choose_base_ref repo_remote_only '' dev '' = Inr ''origin/dev''"
  using choose_base_ref_explicit [of "'' dev ''" repo_remote_only]
  by (simp add: repo_remote_only_def text_eval git_eval)

text \<open>
  Claim C4.  The code falls short of the claim.  Count output with another number of
  fields than two is skipped, as the claim says: in the second repository the query
  for \<^verbatim>\<open>fix\<close> prints nothing and the delta of \<^verbatim>\<open>dev\<close> is still returned.  But
  count output of two fields that are not numbers, which is no pair of counts either,
  passes the test on the number of fields, the conversion raises, and the whole
  computation ends with a \<^const>\<open>ValueError\<close>.
\<close>

theorem branch_deltas_non_numeric_counts:
  "list_local_branches repo_bad_counts = Inr [''dev'', ''main'']
   \<and> run_git repo_bad_counts [''rev-list'', ''--left-right'', ''--count'', ''dev...main''] True
       = Inr ''x y''
   \<and> py_int ''x'' = Inl ValueError
   \<and> branch_deltas repo_bad_counts ''main'' = Inl ValueError
   \<and> list_local_branches repo_three = Inr [''dev'', ''fix'', ''main'']
   \<and> run_git repo_three [''rev-list'', ''--left-right'', ''--count'', ''fix...origin/main''] True
       = Inr ''''
   \<and> branch_deltas repo_three ''origin/main''
       = Inr [\<lparr>BranchDelta.branch = ''dev'', ahead_of_base = 3, behind_base = 1\<rparr>]"
  by (simp add: repo_bad_counts_def repo_three_def text_eval git_eval)

text \<open>
  Claim C8, as stated, fails: only the qualifier \<^verbatim>\<open>origin/\<close> is stripped.  With
  the base ref \<^verbatim>\<open>upstream/main\<close> the normalized name is the base ref itself, and
  the local branch \<^verbatim>\<open>main\<close>, which is the base ref without its remote qualifier,
  is among the entries returned.
\<close>

theorem branch_deltas_excludes_base_counterexample:
  "normalize_base_branch_name ''upstream/main'' = ''upstream/main''
   \<and> branch_deltas repo_upstream ''upstream/main''
       = Inr [\<lparr>BranchDelta.branch = ''main'', ahead_of_base = 0, behind_base = 2\<rparr>,
              \<lparr>BranchDelta.branch = ''dev'', ahead_of_base = 1, behind_base = 0\<rparr>]"
  by (simp add: repo_upstream_def text_eval git_eval)

text \<open>
  Claim C8, amended.  Whatever the base ref and the local branches, no entry that
  \<^const>\<open>branch_deltas\<close> returns is named as the normalized base branch, which is
  the base ref without a leading \<^verbatim>\<open>origin/\<close>.
\<close>

theorem branch_deltas_excludes_base:
  assumes "branch_deltas g base = Inr ds"
  shows "\<forall>d \<in> set ds. BranchDelta.branch d \<noteq> normalize_base_branch_name base"
proof -
  from assms obtain bs deltas where
    loop: "deltas_loop g base (normalize_base_branch_name base) bs [] = Inr deltas"
    and ds: "ds = sorted_desc (\<lambda>d. (behind_base d, ahead_of_base d, BranchDelta.branch d)) deltas"
    by (auto simp add: branch_deltas_def split: sum.splits)
  have "\<forall>d \<in> set deltas. BranchDelta.branch d \<noteq> normalize_base_branch_name base"
    using deltas_loop_names [OF loop] by simp
  then show ?thesis by (simp add: ds set_sorted_desc)
qed

theorem branch_deltas_excludes_base_witness:
  "branch_deltas repo_ok ''origin/main''
     = Inr [\<lparr>BranchDelta.branch = ''fix'', ahead_of_base = 0, behind_base = 2\<rparr>,
            \<lparr>BranchDelta.branch = ''dev'', ahead_of_base = 3, behind_base = 1\<rparr>]
   \<and> normalize_base_branch_name ''origin/main'' = ''main''
   \<and> ''fix'' \<noteq> normalize_base_branch_name ''origin/main''
   \<and> ''dev'' \<noteq> normalize_base_branch_name ''origin/main''"
proof -
  have run: "branch_deltas repo_ok ''origin/main''
     = Inr [\<lparr>BranchDelta.branch = ''fix'', ahead_of_base = 0, behind_base = 2\<rparr>,
            \<lparr>BranchDelta.branch = ''dev'', ahead_of_base = 3, behind_base = 1\<rparr>]"
    by (simp add: repo_ok_def text_eval git_eval)
  have "normalize_base_branch_name ''origin/main'' = ''main''"
    by (simp add: text_eval git_eval)
  with run branch_deltas_excludes_base [OF run] show ?thesis by simp
qed

section \<open>Claims about session\_monitor.py\<close>

text \<open>
  Claim C6, as stated, fails: \<^const>\<open>truncate\<close> does not touch whitespace, and with
  a limit below 3 the cut is taken from the end of the text.
\<close>

theorem truncate_counterexample:
  "truncate ''a  b'' 100 = ''a  b''
   \<and> normalize_whitespace ''a  b'' = ''a b''
   \<and> truncate ''abcdef'' 2 = ''abcde...''"
  by (simp add: truncate_def normalize_whitespace_def py_slice_to_def text_eval)

text \<open>
  Claim C6, amended.  \<^const>\<open>truncate\<close> leaves whitespace alone (the caller
  normalizes a message snippet before it truncates it).  A text no longer than the
  limit is returned unchanged; a longer text, for a limit of at least 3, becomes its
  first \<open>limit - 3\<close> characters followed by three dots, \<open>limit\<close> characters in all.
  So 150 characters with limit 100 give 100 characters ending in the dots, and 5
  characters with limit 100 are unchanged.
\<close>

theorem truncate_cut:
  "(int (length text) \<le> limit \<longrightarrow> truncate text limit = text)
   \<and> (limit < int (length text) \<and> 3 \<le> limit
        \<longrightarrow> truncate text limit = take (nat (limit - 3)) text @ ''...''
            \<and> int (length (truncate text limit)) = limit)
   \<and> (length text = 150
        \<longrightarrow> length (truncate text 100) = 100 \<and> drop 97 (truncate text 100) = ''...'')
   \<and> (length text = 5 \<longrightarrow> truncate text 100 = text)"
  by (auto simp add: truncate_def py_slice_to_def)

theorem truncate_cut_witness:
  "(3::int) \<le> 5 \<and> (5::int) < int (length ''a  bcdef'')
   \<and> truncate ''a  bcdef'' 5 = ''a ...''
   \<and> int (length (truncate ''a  bcdef'' 5)) = 5
   \<and> truncate ''abc'' 5 = ''abc''"
  using truncate_cut [of "''a  bcdef''" 5] truncate_cut [of "''abc''" 5]
  by simp

text \<open>
  Claim C1, as stated, fails: with a stored offset of 10 and a log of 3 characters
  the engine neither clips nor resets; it reads nothing and the offset stored after
  the poll is still 10.
\<close>

theorem follow_path_offset_counterexample:
  "files_short log_a = Some \<lparr>content = line_number, readable = True, mtime = 100\<rparr>
   \<and> length line_number = 3
   \<and> follow_path loads_log repr_unused files_short cache_a log_a [(log_a, 10)]
       = ([], Inr [(log_a, 10)])"
  by (simp add: session_eval log_eval)

text \<open>
  Claim C1, amended.  For every tracked log that can be opened: when the stored
  offset exceeds the file's size at poll time, the engine seeks to the stored offset
  as it is, reads and prints nothing, and leaves the stored offset unchanged; when the
  stored offset is at most the file's size, the offset stored after a poll that
  completes is the file's size.
\<close>

theorem follow_path_offset:
  assumes "files p = Some f" and "readable f" and "map_of offsets p = Some off"
  shows "(length (content f) < off
            \<longrightarrow> follow_path loads repr files cache p offsets = ([], Inr offsets))
       \<and> (off \<le> length (content f)
            \<longrightarrow> (\<forall>printed offsets1.
                   follow_path loads repr files cache p offsets = (printed, Inr offsets1)
                   \<longrightarrow> map_of offsets1 p = Some (length (content f))))"
proof (intro conjI impI allI)
  assume "length (content f) < off"
  then have "drop off (content f) = []" by simp
  moreover have "AList.update p off offsets = offsets"
    using assms(3) by (rule update_triv)
  ultimately show "follow_path loads repr files cache p offsets = ([], Inr offsets)"
    by (simp add: follow_path_read [where files = files and p = p and f = f, OF assms]
          read_text_empty)
next
  fix printed offsets1
  assume le: "off \<le> length (content f)"
    and run: "follow_path loads repr files cache p offsets = (printed, Inr offsets1)"
  from run have "offsets1 = AList.update p (off + length (drop off (content f))) offsets"
    by (simp add: follow_path_read [where files = files and p = p and f = f, OF assms]
          split: option.splits)
  then show "map_of offsets1 p = Some (length (content f))"
    using le by (simp add: update_conv)
qed

theorem follow_path_offset_witness:
  "files_grown log_a
     = Some \<lparr>content = line_meta @ concat [line_turn, line_tokens, line_torn],
             readable = True, mtime = 100\<rparr>
   \<and> map_of [(log_a, 400)] log_a = Some 400
   \<and> length (line_meta @ concat [line_turn, line_tokens, line_torn]) = 251
   \<and> follow_path loads_log repr_unused files_grown cache_a log_a [(log_a, 400)]
       = ([], Inr [(log_a, 400)])
   \<and> map_of [(log_a, 101)] log_a = Some 101
   \<and> follow_path loads_log repr_unused files_grown cache_a log_a [(log_a, 101)]
       = ([''2026-01-01T00:00:05Z | s-good | primary | /x/proj | turn cwd=/x/proj | ''
            @ log_a],
          Inr [(log_a, 251)])"
  using follow_path_offset
      [of files_grown log_a
          "\<lparr>content = line_meta @ concat [line_turn, line_tokens, line_torn],
            readable = True, mtime = 100\<rparr>"
          "[(log_a, 400)]" 400 loads_log repr_unused cache_a]
    follow_path_offset
      [of files_grown log_a
          "\<lparr>content = line_meta @ concat [line_turn, line_tokens, line_torn],
            readable = True, mtime = 100\<rparr>"
          "[(log_a, 101)]" 101 loads_log repr_unused cache_a]
  by (simp add: session_eval log_eval text_eval)

text \<open>
  Claim C3.  The code falls short of the claim.  A complete line is appended to a
  tracked log; it is valid JSON but no dictionary (the number 42).  The claim has the
  poll print at most one entry for it and store the end of the file as the offset.
  The code skips a line that is not JSON, as the cut-off line of the second log shows,
  where the poll completes and stores the offset 251; but for the number the
  summarizer raises \<^const>\<open>AttributeError\<close>, nothing in the round catches it,
  and the round ends without an offset stored.
\<close>

theorem follow_poll_non_object_line:
  "loads_log line_number = Inr (JInt 42)
   \<and> follow_poll loads_log repr_unused realpath_plain fromisoformat_table files_appended
        [log_a] ''/x/proj'' 40 160 30 False [(log_a, length line_meta)]
       = ([], Inl AttributeError)
   \<and> loads_log line_torn = Inl JSONDecodeError
   \<and> follow_poll loads_log repr_unused realpath_plain fromisoformat_table files_grown
        [log_a] ''/x/proj'' 40 160 30 False [(log_a, length line_meta)]
       = ([''2026-01-01T00:00:05Z | s-good | primary | /x/proj | turn cwd=/x/proj | ''
            @ log_a],
          Inr [(log_a, 251)])"
  by (simp add: follow_poll_def is_active_def session_eval log_eval text_eval sorted_desc_def)

text \<open>
  Claim C9.  Discovery succeeds only when the start timestamp of every kept record
  parses: if some log file yields a session record inside the project root whose
  timestamp (non-empty, as every record's is) does not parse, the whole pass raises
  and returns no session, valid or not.
\<close>

theorem discover_sessions_unparseable_timestamp:
  assumes "p \<in> set log_files"
    and "read_session_meta loads files p = Inr (Some meta)" and "meta \<noteq> []"
    and "to_session_record repr p meta = Some record"
    and "is_within_root realpath project_root (cwd record)"
    and "parse_iso fromisoformat (SessionRecord.started_at record) = Inl ValueError"
  shows "SessionRecord.started_at record \<noteq> []
       \<and> (\<exists>e. discover_sessions loads repr realpath fromisoformat files log_files project_root
                = Inl e)"
proof
  show "SessionRecord.started_at record \<noteq> []"
    using assms(4) by (auto simp add: to_session_record_def Let_def split: if_splits)
next
  show "\<exists>e. discover_sessions loads repr realpath fromisoformat files log_files project_root = Inl e"
  proof (cases "discover_loop loads repr realpath files project_root log_files []")
    case (Inl e)
    then show ?thesis by (simp add: discover_sessions_def)
  next
    case (Inr rs)
    from discover_loop_keeps [OF Inr assms(1-5)] have "record \<in> set rs" .
    with assms(6) Inr show ?thesis by (auto simp add: discover_sessions_def)
  qed
qed

theorem discover_sessions_unparseable_timestamp_witness:
  "log_b \<in> set [log_a, log_b]
   \<and> read_session_meta loads_log files_two log_b
        = Inr (Some [(''id'', JStr ''s-bad''), (''timestamp'', JStr ''yesterday''),
                     (''cwd'', JStr ''/x/proj/sub'')])
   \<and> to_session_record repr_unused log_b
        [(''id'', JStr ''s-bad''), (''timestamp'', JStr ''yesterday''),
         (''cwd'', JStr ''/x/proj/sub'')] = Some session_bad
   \<and> is_within_root realpath_plain ''/x/proj'' (cwd session_bad)
   \<and> parse_iso fromisoformat_table (SessionRecord.started_at session_bad) = Inl ValueError
   \<and> discover_sessions loads_log repr_unused realpath_plain fromisoformat_table files_two
        [log_a, log_b] ''/x/proj'' = Inl ValueError
   \<and> discover_sessions loads_log repr_unused realpath_plain fromisoformat_table files_two
        [log_a] ''/x/proj'' = Inr [session_good]"
  using discover_sessions_unparseable_timestamp
    [of log_b "[log_a, log_b]" loads_log files_two
        "[(''id'', JStr ''s-bad''), (''timestamp'', JStr ''yesterday''),
          (''cwd'', JStr ''/x/proj/sub'')]"
        repr_unused session_bad realpath_plain "''/x/proj''" fromisoformat_table]
  by (simp add: session_eval log_eval text_eval sorted_desc_def)

section \<open>Claims about heartbeat\_monitor.py\<close>




text \<open>
  Claim C10.  The heartbeat deadline starts at zero and a failed cycle leaves it
  alone, so with a monotonic clock that is not negative the first cycle that loads
  without error prints a heartbeat, whatever the heartbeat interval: after any
  number of failed cycles when the monitor loops, and in a single-shot run, which
  then returns 0.
\<close>

theorem heartbeat_on_first_success:
  assumes "\<forall>c \<in> set failed. \<exists>exc. fst (snd (snd c)) = Inl exc" and "0 \<le> now_mono"
  shows "(\<not> once a \<longrightarrow>
            Heartbeat ts (length active) (fst (summarize_roles active)) (snd (summarize_roles active))
                (base_ref topo) (root_dirty topo) (length (dirty_worktrees topo))
                (length (diverged topo))
              \<in> set (fst (main a (failed @ (loop_start, ts, Inr (active, topo), now_mono, end_mono) # later))))
       \<and> (once a \<longrightarrow>
            (\<exists>out. main a ((loop_start, ts, Inr (active, topo), now_mono, end_mono) # later)
                     = (out, Some (Return 0))
                 \<and> Heartbeat ts (length active) (fst (summarize_roles active))
                       (snd (summarize_roles active))
                       (base_ref topo) (root_dirty topo) (length (dirty_worktrees topo))
                       (length (diverged topo))
                     \<in> set out))"
proof -
  let ?c = "(loop_start, ts, Inr (active, topo), now_mono, end_mono)"
  let ?hb = "Heartbeat ts (length active) (fst (summarize_roles active)) (snd (summarize_roles active))
                (base_ref topo) (root_dirty topo) (length (dirty_worktrees topo))
                (length (diverged topo))"
  have "?hb \<in> set (emit_heartbeat ts active topo)"
    by (simp add: emit_heartbeat_def Let_def case_prod_beta)
  then have hb: "?hb \<in> set (fst (cycle a initial_state ?c))"
    using assms(2) by (simp add: cycle_loaded initial_state_def del: cycle.simps)
  show ?thesis
  proof (intro conjI impI)
    assume "\<not> once a"
    from main_loop_after_failures [OF this assms(1), of initial_state "?c # later"]
      main_loop_first_cycle [of a initial_state ?c later] hb
    show "?hb \<in> set (fst (main a (failed @ ?c # later)))"
      by (auto simp add: main_def)
  next
    assume "once a"
    then have "main a (?c # later) = (fst (cycle a initial_state ?c), Some (Return 0))"
      by (simp add: main_def cycle_loaded del: cycle.simps)
    with hb show "\<exists>out. main a (?c # later) = (out, Some (Return 0)) \<and> ?hb \<in> set out"
      by blast
  qed
qed

theorem heartbeat_on_first_success_witness:
  "fst (snd (snd ((0::real), ''t0'', (Inl ''boom'' :: string + ActiveSession list \<times> topology),
                  (1::real), (2::real)))) = Inl ''boom''
   \<and> (0::real) \<le> 7
   \<and> main args_loop [(0, ''t0'', Inl ''boom'', 1, 2), (6, ''t1'', Inr ([], topo_clean), 7, 8)]
       = ([ErrorLine ''t0'' ''boom'', DeltaGit ''t1'' topo_clean,
           Heartbeat ''t1'' 0 0 0 ''main'' False 0 0, HeartbeatSessionsNone ''t1''], None)
   \<and> main args_once [(6, ''t1'', Inr ([], topo_clean), 7, 8)]
       = ([DeltaGit ''t1'' topo_clean, Heartbeat ''t1'' 0 0 0 ''main'' False 0 0,
           HeartbeatSessionsNone ''t1''], Some (Return 0))"
  using heartbeat_on_first_success
      [of "[(0, ''t0'', Inl ''boom'', 1, 2)]" 7 args_loop "''t1''" "[]" topo_clean 6 8 "[]"]
    heartbeat_on_first_success
      [of "[]" 7 args_once "''t1''" "[]" topo_clean 6 8 "[]"]
  by (simp add: cycle_eval)

end
